theory Spec2Isabelle
  imports Main
begin

section \<open>JavaScript values\<close>

text \<open>
  The adapter of \<^verbatim>\<open>src/src/Elastic.ts\<close> handles values whose static type is
  \<^verbatim>\<open>any\<close>: what the client library resolves with, and what it throws. They are
  modelled by a datatype of JavaScript values. A plain object is \<open>JObj props\<close>. An
  instance of \<^verbatim>\<open>Error\<close>, or of a subclass that keeps the methods of \<^verbatim>\<open>Error\<close>,
  is \<open>JError name message props\<close>, \<open>props\<close> holding the further properties of the
  instance. The client's \<^verbatim>\<open>ResponseError\<close> has accessors and a \<^verbatim>\<open>toString\<close> of
  its own and is a constructor of its own: \<open>JResponseError message status body\<close>
  holds the message, the status of the reply and the body of the reply. A number
  \<open>JNum i\<close> stands for an integer that a double holds exactly, below \<open>2 ^ 53\<close> in
  absolute value; the adapter compares numbers and never computes with them.
\<close>

datatype jsval =
    JUndefined
  | JNull
  | JBool bool
  | JNum int
  | JStr string
  | JArr "jsval list"
  | JObj "(string \<times> jsval) list"
  | JError string string "(string \<times> jsval) list"
  | JResponseError string int jsval

text \<open>\<^verbatim>\<open>new Error(msg)\<close>, and the \<^verbatim>\<open>TypeError\<close> the runtime raises by itself.\<close>

definition Error :: "string \<Rightarrow> jsval" where
  "Error msg = JError ''Error'' msg []"

definition TypeError :: "string \<Rightarrow> jsval" where
  "TypeError msg = JError ''TypeError'' msg []"

text \<open>\<^verbatim>\<open>typeof v === "string"\<close>.\<close>

fun is_string :: "jsval \<Rightarrow> bool" where
  "is_string (JStr s) = True"
| "is_string v = False"

text \<open>
  Reading the property \<open>k\<close> of a value, \<^verbatim>\<open>v.k\<close>. On \<^verbatim>\<open>undefined\<close> and
  \<^verbatim>\<open>null\<close> the runtime throws a \<^verbatim>\<open>TypeError\<close>; on an object the read gives the
  property, or \<^verbatim>\<open>undefined\<close> when there is none. The adapter reads the properties
  \<^verbatim>\<open>body\<close>, \<^verbatim>\<open>found\<close>, \<^verbatim>\<open>result\<close>, \<^verbatim>\<open>_id\<close>, \<^verbatim>\<open>_source\<close> and
  \<^verbatim>\<open>hits\<close>, none of which a boolean, a number, a string or an array has, so the
  read gives \<^verbatim>\<open>undefined\<close> on those.
\<close>

definition cannot_read :: "string \<Rightarrow> string \<Rightarrow> jsval" where
  "cannot_read what k =
     TypeError (''Cannot read properties of '' @ what @ '' (reading '' @ [CHR 0x27] @ k @ [CHR 0x27] @ '')'')"

text \<open>
  The accessor \<^verbatim>\<open>statusCode\<close> of a \<^verbatim>\<open>ResponseError\<close>: the \<^verbatim>\<open>status\<close> of the
  body when the body has one that is a number, the status of the reply otherwise.
\<close>

fun response_status :: "int \<Rightarrow> jsval \<Rightarrow> jsval" where
  "response_status st (JObj props) =
     (case map_of props ''status'' of Some (JNum n) \<Rightarrow> JNum n | _ \<Rightarrow> JNum st)"
| "response_status st b = JNum st"

fun get_prop :: "jsval \<Rightarrow> string \<Rightarrow> jsval + jsval" where
  "get_prop JUndefined k = Inl (cannot_read ''undefined'' k)"
| "get_prop JNull k = Inl (cannot_read ''null'' k)"
| "get_prop (JObj props) k = Inr (case map_of props k of None \<Rightarrow> JUndefined | Some v \<Rightarrow> v)"
| "get_prop (JError name message props) k =
     Inr (if k = ''name'' then JStr name
          else if k = ''message'' then JStr message
          else (case map_of props k of None \<Rightarrow> JUndefined | Some v \<Rightarrow> v))"
| "get_prop (JResponseError message st b) k =
     Inr (if k = ''name'' then JStr ''ResponseError''
          else if k = ''message'' then JStr message
          else if k = ''body'' then b
          else if k = ''statusCode'' then response_status st b
          else if k = ''meta'' then JObj [(''body'', b), (''statusCode'', JNum st)]
          else JUndefined)"
| "get_prop v k = Inr JUndefined"

text \<open>Decimal digits of a number, for the conversion of a value to a string.\<close>

fun dec_nat :: "nat \<Rightarrow> string" where
  "dec_nat n =
     (if n < 10 then [char_of (48 + n)]
      else dec_nat (n div 10) @ [char_of (48 + n mod 10)])"

declare dec_nat.simps [simp del]

definition dec_int :: "int \<Rightarrow> string" where
  "dec_int i = (if i < 0 then ''-'' @ dec_nat (nat (- i)) else dec_nat (nat i))"

fun join :: "string \<Rightarrow> string list \<Rightarrow> string" where
  "join sep [] = []"
| "join sep [x] = x"
| "join sep (x # y # ys) = x @ sep @ join sep (y # ys)"

text \<open>
  \<^verbatim>\<open>JSON.stringify\<close>, which the \<^verbatim>\<open>toString\<close> of a \<^verbatim>\<open>ResponseError\<close> applies
  to the body of the reply. The result is absent (\<^verbatim>\<open>undefined\<close>) for
  \<^verbatim>\<open>undefined\<close>. A string is quoted, with the quote, the backslash and the control
  characters escaped. An array gives \<^verbatim>\<open>null\<close> for an element without a text; an
  object leaves out a member without a text. A reply is parsed JSON and holds no error
  instance; of an error instance the text is that of its further properties.
\<close>

definition hex_digit :: "nat \<Rightarrow> char" where
  "hex_digit n = (if n < 10 then char_of (48 + n) else char_of (87 + n))"

definition json_escape :: "char \<Rightarrow> string" where
  "json_escape c =
     (if c = CHR 0x22 then [CHR 0x5C, CHR 0x22]
      else if c = CHR 0x5C then [CHR 0x5C, CHR 0x5C]
      else if c = CHR 0x08 then [CHR 0x5C, CHR ''b'']
      else if c = CHR 0x09 then [CHR 0x5C, CHR ''t'']
      else if c = CHR 0x0A then [CHR 0x5C, CHR ''n'']
      else if c = CHR 0x0C then [CHR 0x5C, CHR ''f'']
      else if c = CHR 0x0D then [CHR 0x5C, CHR ''r'']
      else if (of_char c :: nat) < 32
        then [CHR 0x5C, CHR ''u'', CHR ''0'', CHR ''0'',
              hex_digit ((of_char c :: nat) div 16), hex_digit ((of_char c :: nat) mod 16)]
      else [c])"

definition json_string :: "string \<Rightarrow> string" where
  "json_string s = [CHR 0x22] @ concat (map json_escape s) @ [CHR 0x22]"

fun json_stringify :: "jsval \<Rightarrow> string option"
  and json_elements :: "jsval list \<Rightarrow> string list"
  and json_members :: "(string \<times> jsval) list \<Rightarrow> string list" where
  "json_stringify JUndefined = None"
| "json_stringify JNull = Some ''null''"
| "json_stringify (JBool b) = Some (if b then ''true'' else ''false'')"
| "json_stringify (JNum i) = Some (dec_int i)"
| "json_stringify (JStr s) = Some (json_string s)"
| "json_stringify (JArr xs) = Some (''['' @ join '','' (json_elements xs) @ '']'')"
| "json_stringify (JObj props) = Some (''{'' @ join '','' (json_members props) @ ''}'')"
| "json_stringify (JError name message props) =
     Some (''{'' @ join '','' (json_members props) @ ''}'')"
| "json_stringify (JResponseError message st b) =
     Some (''{'' @ json_string ''name'' @ '':'' @ json_string ''ResponseError'' @ '',''
             @ json_string ''meta'' @ '':{''
             @ join '','' ((case json_stringify b of
                              None \<Rightarrow> []
                            | Some t \<Rightarrow> [json_string ''body'' @ '':'' @ t])
                           @ [json_string ''statusCode'' @ '':'' @ dec_int st])
             @ ''}}'')"
| "json_elements [] = []"
| "json_elements (x # xs) =
     (case json_stringify x of None \<Rightarrow> ''null'' | Some t \<Rightarrow> t) # json_elements xs"
| "json_members [] = []"
| "json_members (kv # kvs) =
     (case json_stringify (snd kv) of
        None \<Rightarrow> json_members kvs
      | Some t \<Rightarrow> (json_string (fst kv) @ '':'' @ t) # json_members kvs)"

text \<open>
  The conversion \<^verbatim>\<open>"" + v\<close> of a value to a string. An \<^verbatim>\<open>Error\<close> instance is
  rendered by \<^verbatim>\<open>Error.prototype.toString\<close>: its name, a colon and its message,
  or only one of the two when the other is empty. A \<^verbatim>\<open>ResponseError\<close> is rendered
  by its own \<^verbatim>\<open>toString\<close>, \<^verbatim>\<open>JSON.stringify(this.meta.body)\<close>, and as
  \<^verbatim>\<open>undefined\<close> when that has no text. An array joins its elements with commas,
  \<^verbatim>\<open>undefined\<close> and \<^verbatim>\<open>null\<close> elements giving the empty string.
\<close>

fun js_to_string :: "jsval \<Rightarrow> string" where
  "js_to_string JUndefined = ''undefined''"
| "js_to_string JNull = ''null''"
| "js_to_string (JBool b) = (if b then ''true'' else ''false'')"
| "js_to_string (JNum i) = dec_int i"
| "js_to_string (JStr s) = s"
| "js_to_string (JArr xs) =
     join '','' (map (\<lambda>x. if x = JUndefined \<or> x = JNull then [] else js_to_string x) xs)"
| "js_to_string (JObj props) = ''[object Object]''"
| "js_to_string (JError name message props) =
     (if name = [] then message
      else if message = [] then name
      else name @ '': '' @ message)"
| "js_to_string (JResponseError message st b) =
     (case json_stringify b of None \<Rightarrow> ''undefined'' | Some t \<Rightarrow> t)"

text \<open>Sequencing of computations that may throw: the first exception ends the sequence.\<close>

definition and_then :: "'e + 'a \<Rightarrow> ('a \<Rightarrow> 'e + 'b) \<Rightarrow> 'e + 'b" where
  "and_then r f = (case r of Inl e \<Rightarrow> Inl e | Inr v \<Rightarrow> f v)"

fun map_throwing :: "('a \<Rightarrow> 'e + 'b) \<Rightarrow> 'a list \<Rightarrow> 'e + 'b list" where
  "map_throwing f [] = Inr []"
| "map_throwing f (x # xs) =
     (case f x of
        Inl e \<Rightarrow> Inl e
      | Inr y \<Rightarrow> (case map_throwing f xs of Inl e \<Rightarrow> Inl e | Inr ys \<Rightarrow> Inr (y # ys)))"

text \<open>\<^verbatim>\<open>v.map(f)\<close>: defined on arrays; any other value has no \<^verbatim>\<open>map\<close> method.\<close>

fun js_map :: "(jsval \<Rightarrow> jsval + jsval) \<Rightarrow> jsval \<Rightarrow> jsval + jsval list" where
  "js_map f (JArr xs) = map_throwing f xs"
| "js_map f JUndefined = Inl (cannot_read ''undefined'' ''map'')"
| "js_map f JNull = Inl (cannot_read ''null'' ''map'')"
| "js_map f v = Inl (TypeError ''map is not a function'')"

section \<open>The client library\<close>

text \<open>
  The adapter talks to the store through the client of the package
  \<^verbatim>\<open>@elastic/elasticsearch\<close>, which is not code of this repository. Each call the
  adapter makes is a value of type \<open>request\<close>, holding the parameters the source
  passes. The request to search carries the sort clauses and the query of its body.
\<close>

datatype sort_clause = SortBy string string

datatype query =
    Match string string
  | Regexp string string

datatype request =
    Info
  | Index string string jsval string
  | Get string string jsval
  | Update string string jsval string jsval
  | Search string string "sort_clause list" query
  | Delete string string jsval "string option"
  | IndicesDelete string "int list"
  | IndicesRefresh string

text \<open>
  The parameters are, in this order: for \<open>Index\<close> the index, the type, the body
  and \<^verbatim>\<open>refresh\<close>; for \<open>Get\<close> the index, the type and the id; for \<open>Update\<close>
  the index, the type, the id, \<^verbatim>\<open>refresh\<close> and the \<^verbatim>\<open>doc\<close> of the body; for
  \<open>Search\<close> the index, the type, \<^verbatim>\<open>sort\<close> and \<^verbatim>\<open>query\<close> of the body; for
  \<open>Delete\<close> the index, the type, the id and \<^verbatim>\<open>refresh\<close> when it is given; for
  \<open>IndicesDelete\<close> the index and the \<^verbatim>\<open>ignore\<close> option; for
  \<open>IndicesRefresh\<close> the index.

  What the adapter does to the library is an \<open>action\<close>: it constructs a client for a
  node, or it calls a method of the client constructed for a node.
\<close>

datatype action =
    NewClient string
  | Call string request

record api_response =
  statusCode :: jsval
  body :: jsval

text \<open>
  The library and the store behind it are a parameter of the model: a function that
  answers an action in a state \<open>'w\<close> of the outside world, by an exception (\<open>Inl\<close>)
  or a response (\<open>Inr\<close>), and gives the next state. The adapter's own state is the
  list of the actions it has performed, which makes "no network call" a statement
  about this list.
\<close>

type_synonym 'w library = "action \<Rightarrow> 'w \<Rightarrow> (jsval + api_response) \<times> 'w"

record 'w sys =
  trace :: "action list"
  world :: 'w

definition invoke :: "'w library \<Rightarrow> action \<Rightarrow> 'w sys \<Rightarrow> (jsval + api_response) \<times> 'w sys" where
  "invoke lib a s =
     (case lib a (world s) of
        (r, w') \<Rightarrow> (r, \<lparr>trace = trace s @ [a], world = w'\<rparr>))"

section \<open>The adapter\<close>

text \<open>
  An instance of the class \<^verbatim>\<open>Elastic\<close> holds its client; the client is identified
  by the node it was constructed for. Each method takes the library, the instance and
  the state besides the parameters of the source, and returns what it throws (\<open>Inl\<close>)
  or returns (\<open>Inr\<close>) with the next state. The parameters \<^verbatim>\<open>type\<close> and
  \<^verbatim>\<open>id\<close> of the source are \<open>ty\<close> and \<open>docid\<close>.
\<close>

record Elastic =
  client :: string

text \<open>
  \<^verbatim>\<open>establish\<close>, lines 16 to 34. The node of the client is
  \<^verbatim>\<open>host + ":" + port\<close>, the concatenation of the two arguments as strings. The
  constructor is called outside the \<^verbatim>\<open>try\<close> block, the probe inside it.
\<close>

definition establish ::
  "'w library \<Rightarrow> jsval \<Rightarrow> jsval \<Rightarrow> 'w sys \<Rightarrow> (jsval + Elastic) \<times> 'w sys" where
  "establish lib host port s =
     (if \<not> is_string host then (Inl (Error ''Host invalid''), s)
      else if \<not> is_string port then (Inl (Error ''Host invalid''), s)
      else
        (case invoke lib (NewClient (js_to_string host @ '':'' @ js_to_string port)) s of
           (Inl e, s1) \<Rightarrow> (Inl e, s1)
         | (Inr c, s1) \<Rightarrow>
             (case invoke lib (Call (js_to_string host @ '':'' @ js_to_string port) Info) s1 of
                (Inl e, s2) \<Rightarrow>
                  (Inl (Error (''Cannot establish elasticsearch connection: '' @ js_to_string e)), s2)
              | (Inr r, s2) \<Rightarrow>
                  (Inr \<lparr>client = js_to_string host @ '':'' @ js_to_string port\<rparr>, s2))))"

text \<open>
  \<^verbatim>\<open>validateIndex\<close>, lines 42 to 47. The pattern \<^verbatim>\<open>/^[a-z0-9\-]+$/\<close> has no flag,
  so it matches a name exactly when the name is one or more characters of the class, from
  its first character to its last.
\<close>

definition index_char :: "char \<Rightarrow> bool" where
  "index_char c =
     ((97 \<le> (of_char c :: nat) \<and> (of_char c :: nat) \<le> 122)
      \<or> (48 \<le> (of_char c :: nat) \<and> (of_char c :: nat) \<le> 57)
      \<or> c = CHR ''-'')"

definition matches_index_pattern :: "string \<Rightarrow> bool" where
  "matches_index_pattern name = (name \<noteq> [] \<and> list_all index_char name)"

definition validateIndex :: "string \<Rightarrow> jsval + unit" where
  "validateIndex name =
     (if \<not> matches_index_pattern name then Inl (Error ''Only snake-case allowed'')
      else Inr ())"

text \<open>\<^verbatim>\<open>refresh\<close>, lines 219 to 221.\<close>

definition refresh :: "'w library \<Rightarrow> Elastic \<Rightarrow> string \<Rightarrow> 'w sys \<Rightarrow> (jsval + unit) \<times> 'w sys" where
  "refresh lib this index s =
     (case invoke lib (Call (client this) (IndicesRefresh index)) s of
        (Inl e, s1) \<Rightarrow> (Inl e, s1)
      | (Inr r, s1) \<Rightarrow> (Inr (), s1))"

text \<open>
  \<^verbatim>\<open>createDocument\<close>, lines 49 to 63. The parameter \<^verbatim>\<open>body\<close> of the source is
  \<open>doc_body\<close> here, \<open>body\<close> being the field of the response.
\<close>

definition createDocument ::
  "'w library \<Rightarrow> Elastic \<Rightarrow> string \<Rightarrow> string \<Rightarrow> jsval \<Rightarrow> 'w sys \<Rightarrow> (jsval + jsval) \<times> 'w sys" where
  "createDocument lib this index ty doc_body s =
     (case validateIndex index of
        Inl e \<Rightarrow> (Inl e, s)
      | Inr u \<Rightarrow>
          (case invoke lib (Call (client this) (Index index ty doc_body ''true'')) s of
             (Inl e, s1) \<Rightarrow> (Inl e, s1)
           | (Inr result, s1) \<Rightarrow>
               (case refresh lib this index s1 of
                  (Inl e, s2) \<Rightarrow> (Inl e, s2)
                | (Inr u', s2) \<Rightarrow>
                    (case get_prop (body result) ''result'' of
                       Inl e \<Rightarrow> (Inl e, s2)
                     | Inr r \<Rightarrow>
                         if r \<noteq> JStr ''created'' \<or> statusCode result \<noteq> JNum 201
                         then (Inl (Error ''Failed to create document''), s2)
                         else (get_prop (body result) ''_id'', s2)))))"

text \<open>
  \<^verbatim>\<open>getById\<close>, lines 65 to 80. The \<^verbatim>\<open>try\<close> block holds the call and the read
  of \<^verbatim>\<open>body._source\<close>; whatever either throws reaches the handler, which reads
  \<^verbatim>\<open>e.body.found\<close> before it decides. An absent document is the value
  \<^verbatim>\<open>undefined\<close>.
\<close>

definition getById_handler :: "jsval \<Rightarrow> jsval + jsval" where
  "getById_handler e =
     and_then (get_prop e ''body'') (\<lambda>b.
     and_then (get_prop b ''found'') (\<lambda>found.
       if found = JBool False then Inr JUndefined else Inl e))"

definition getById ::
  "'w library \<Rightarrow> Elastic \<Rightarrow> string \<Rightarrow> string \<Rightarrow> jsval \<Rightarrow> 'w sys \<Rightarrow> (jsval + jsval) \<times> 'w sys" where
  "getById lib this index ty docid s =
     (case invoke lib (Call (client this) (Get index ty docid)) s of
        (r, s1) \<Rightarrow>
          (case and_then r (\<lambda>resp. get_prop (body resp) ''_source'') of
             Inr source \<Rightarrow> (Inr source, s1)
           | Inl e \<Rightarrow> (getById_handler e, s1)))"

text \<open>\<^verbatim>\<open>updateDocument\<close>, lines 82 to 97.\<close>

definition updateDocument ::
  "'w library \<Rightarrow> Elastic \<Rightarrow> string \<Rightarrow> string \<Rightarrow> jsval \<Rightarrow> jsval \<Rightarrow> 'w sys \<Rightarrow> (jsval + bool) \<times> 'w sys" where
  "updateDocument lib this index ty docid doc_body s =
     (case invoke lib (Call (client this) (Update index ty docid ''true'' doc_body)) s of
        (Inl e, s1) \<Rightarrow> (Inr False, s1)
      | (Inr r, s1) \<Rightarrow> (Inr True, s1))"

text \<open>
  \<^verbatim>\<open>searchByField\<close>, lines 113 to 204: a \<^verbatim>\<open>match\<close> query on the field, sorted
  by \<^verbatim>\<open>_uid\<close> ascending; the result is \<^verbatim>\<open>result.body.hits.hits.map(h => h._source)\<close>.
\<close>

definition hits_sources :: "jsval \<Rightarrow> jsval + jsval list" where
  "hits_sources b =
     and_then (get_prop b ''hits'') (\<lambda>hs.
     and_then (get_prop hs ''hits'') (\<lambda>hits.
       js_map (\<lambda>h. get_prop h ''_source'') hits))"

definition searchByField ::
  "'w library \<Rightarrow> Elastic \<Rightarrow> string \<Rightarrow> string \<Rightarrow> string \<Rightarrow> string \<Rightarrow> 'w sys
     \<Rightarrow> (jsval + jsval list) \<times> 'w sys" where
  "searchByField lib this index ty field query s =
     (case invoke lib (Call (client this)
               (Search index ty [SortBy ''_uid'' ''asc''] (Match field query))) s of
        (Inl e, s1) \<Rightarrow> (Inl e, s1)
      | (Inr result, s1) \<Rightarrow> (hits_sources (body result), s1))"

text \<open>\<^verbatim>\<open>deleteDocument\<close>, lines 206 to 208.\<close>

definition deleteDocument ::
  "'w library \<Rightarrow> Elastic \<Rightarrow> string \<Rightarrow> string \<Rightarrow> jsval \<Rightarrow> 'w sys \<Rightarrow> (jsval + unit) \<times> 'w sys" where
  "deleteDocument lib this index ty docid s =
     (case invoke lib (Call (client this) (Delete index ty docid (Some ''true''))) s of
        (Inl e, s1) \<Rightarrow> (Inl e, s1)
      | (Inr r, s1) \<Rightarrow> (Inr (), s1))"

text \<open>\<^verbatim>\<open>deleteIndex\<close>, lines 210 to 213.\<close>

definition deleteIndex ::
  "'w library \<Rightarrow> Elastic \<Rightarrow> string \<Rightarrow> 'w sys \<Rightarrow> (jsval + bool) \<times> 'w sys" where
  "deleteIndex lib this index s =
     (case invoke lib (Call (client this) (IndicesDelete index [404])) s of
        (Inl e, s1) \<Rightarrow> (Inl e, s1)
      | (Inr r, s1) \<Rightarrow> (Inr True, s1))"

section \<open>The second copy of the adapter\<close>

text \<open>
  The repository holds a second copy of the class (\<^verbatim>\<open>src/unnamed/part_000\<close>). Its
  \<^verbatim>\<open>establish\<close>, \<^verbatim>\<open>getById\<close>, \<^verbatim>\<open>updateDocument\<close>, \<^verbatim>\<open>deleteIndex\<close>
  and \<^verbatim>\<open>refresh\<close> are those of \<^verbatim>\<open>src/src/Elastic.ts\<close>, character for character
  but for the quotes. Three methods differ: \<^verbatim>\<open>createDocument\<close> (lines 36 to 48) has no
  call of \<^verbatim>\<open>validateIndex\<close>, which the copy does not define;
  \<^verbatim>\<open>searchByField\<close> (lines 102 to 119) sends the query
  \<^verbatim>\<open>regexp: { [field]: `.*${query}.*` }\<close>; \<^verbatim>\<open>deleteDocument\<close> (lines 121 to 123)
  passes no \<^verbatim>\<open>refresh\<close>. They are modelled under the suffix \<open>_v0\<close>.
\<close>

definition createDocument_v0 ::
  "'w library \<Rightarrow> Elastic \<Rightarrow> string \<Rightarrow> string \<Rightarrow> jsval \<Rightarrow> 'w sys \<Rightarrow> (jsval + jsval) \<times> 'w sys" where
  "createDocument_v0 lib this index ty doc_body s =
     (case invoke lib (Call (client this) (Index index ty doc_body ''true'')) s of
        (Inl e, s1) \<Rightarrow> (Inl e, s1)
      | (Inr result, s1) \<Rightarrow>
          (case refresh lib this index s1 of
             (Inl e, s2) \<Rightarrow> (Inl e, s2)
           | (Inr u', s2) \<Rightarrow>
               (case get_prop (body result) ''result'' of
                  Inl e \<Rightarrow> (Inl e, s2)
                | Inr r \<Rightarrow>
                    if r \<noteq> JStr ''created'' \<or> statusCode result \<noteq> JNum 201
                    then (Inl (Error ''Failed to create document''), s2)
                    else (get_prop (body result) ''_id'', s2))))"

definition searchByField_v0 ::
  "'w library \<Rightarrow> Elastic \<Rightarrow> string \<Rightarrow> string \<Rightarrow> string \<Rightarrow> string \<Rightarrow> 'w sys
     \<Rightarrow> (jsval + jsval list) \<times> 'w sys" where
  "searchByField_v0 lib this index ty field query s =
     (case invoke lib (Call (client this)
               (Search index ty [SortBy ''_uid'' ''asc''] (Regexp field (''.*'' @ query @ ''.*'')))) s of
        (Inl e, s1) \<Rightarrow> (Inl e, s1)
      | (Inr result, s1) \<Rightarrow> (hits_sources (body result), s1))"

definition deleteDocument_v0 ::
  "'w library \<Rightarrow> Elastic \<Rightarrow> string \<Rightarrow> string \<Rightarrow> jsval \<Rightarrow> 'w sys \<Rightarrow> (jsval + unit) \<times> 'w sys" where
  "deleteDocument_v0 lib this index ty docid s =
     (case invoke lib (Call (client this) (Delete index ty docid None)) s of
        (Inl e, s1) \<Rightarrow> (Inl e, s1)
      | (Inr r, s1) \<Rightarrow> (Inr (), s1))"

section \<open>Documents\<close>

text \<open>
  The type \<^verbatim>\<open>Body\<close> of the source, \<^verbatim>\<open>{ [key: string]: string | string[] }\<close>: a
  plain object, each value a string or an array of strings.
\<close>

fun field_value :: "jsval \<Rightarrow> bool" where
  "field_value (JStr s) = True"
| "field_value (JArr xs) = list_all is_string xs"
| "field_value v = False"

fun valid_body :: "jsval \<Rightarrow> bool" where
  "valid_body (JObj props) = (distinct (map fst props) \<and> list_all (\<lambda>kv. field_value (snd kv)) props)"
| "valid_body v = False"

section \<open>A reference store\<close>

text \<open>
  The theorems on the adapter hold for every library. To run the adapter on concrete
  inputs a library is needed; the following one keeps the documents in a list. The
  search engine itself is not code of this repository, so the reference store follows
  the engine's interface as the adapter uses it: a reply with a status of 400 or more
  is thrown as a \<^verbatim>\<open>ResponseError\<close> carrying the reply's body, unless the call lists
  the status in its \<^verbatim>\<open>ignore\<close> option; a failure of the transport is thrown as a
  \<^verbatim>\<open>ConnectionError\<close>, which has no \<^verbatim>\<open>body\<close>; a document that is looked up or
  deleted under an id the store does not hold is answered with status 404 and
  \<^verbatim>\<open>found: false\<close>.
\<close>

record es_world =
  reachable :: bool
  indices :: "string list"
  docs :: "(string \<times> string \<times> nat \<times> jsval) list"
  next_id :: nat

definition response :: "int \<Rightarrow> jsval \<Rightarrow> api_response" where
  "response st b = \<lparr>statusCode = JNum st, body = b\<rparr>"

text \<open>
  The constructor of \<^verbatim>\<open>ResponseError\<close> takes its message from the type of the
  error the body names, when it names one, and is "Response Error" otherwise.
\<close>

fun response_message :: "jsval \<Rightarrow> string" where
  "response_message (JObj props) =
     (case map_of props ''error'' of
        Some (JObj err) \<Rightarrow>
          (case map_of err ''type'' of
             Some (JStr t) \<Rightarrow> (if t = [] then ''Response Error'' else t)
           | _ \<Rightarrow> ''Response Error'')
      | _ \<Rightarrow> ''Response Error'')"
| "response_message b = ''Response Error''"

definition ResponseError :: "int \<Rightarrow> jsval \<Rightarrow> jsval" where
  "ResponseError st b = JResponseError (response_message b) st b"

definition connection_error :: "string \<Rightarrow> jsval" where
  "connection_error msg = JError ''ConnectionError'' msg [(''meta'', JObj [(''body'', JNull)])]"

definition ConnectionError :: jsval where
  "ConnectionError = connection_error ''connect ECONNREFUSED''"

text \<open>
  A library whose every call throws the same value, the construction of a client
  succeeding: the store of a probe that fails.
\<close>

fun failing_lib :: "jsval \<Rightarrow> unit library" where
  "failing_lib e (NewClient node) w = (Inr \<lparr>statusCode = JUndefined, body = JUndefined\<rparr>, w)"
| "failing_lib e (Call node req) w = (Inl e, w)"

definition index_not_found :: "string \<Rightarrow> jsval" where
  "index_not_found index =
     JObj [(''error'', JObj [(''type'', JStr ''index_not_found_exception''), (''index'', JStr index)]),
           (''status'', JNum 404)]"

text \<open>
  Modelled from the spec: the two matching policies of section 4.1, which the engine
  evaluates and the repository does not hold. Policy (b), analyzed term matching,
  "tokenizes on word boundaries and matches whole tokens": a token is a maximal run
  of letters and digits, and a query matches a text when one of its tokens is a token
  of the text. Policy (a), "contains" matching, holds when the query occurs in the
  raw text; of the patterns of a \<^verbatim>\<open>regexp\<close> query only \<^verbatim>\<open>.*q.*\<close> with \<open>q\<close> made
  of letters, digits and spaces is evaluated, any other pattern matching nothing.
\<close>

definition word_char :: "char \<Rightarrow> bool" where
  "word_char c =
     ((97 \<le> (of_char c :: nat) \<and> (of_char c :: nat) \<le> 122)
      \<or> (65 \<le> (of_char c :: nat) \<and> (of_char c :: nat) \<le> 90)
      \<or> (48 \<le> (of_char c :: nat) \<and> (of_char c :: nat) \<le> 57))"

fun tokens_from :: "string \<Rightarrow> string \<Rightarrow> string list" where
  "tokens_from cur [] = (if cur = [] then [] else [cur])"
| "tokens_from cur (c # cs) =
     (if word_char c then tokens_from (cur @ [c]) cs
      else (if cur = [] then [] else [cur]) @ tokens_from [] cs)"

definition tokens :: "string \<Rightarrow> string list" where
  "tokens text = tokens_from [] text"

definition term_match :: "string \<Rightarrow> string \<Rightarrow> bool" where
  "term_match query text = list_ex (\<lambda>t. t \<in> set (tokens text)) (tokens query)"

fun starts_with :: "string \<Rightarrow> string \<Rightarrow> bool" where
  "starts_with text [] = True"
| "starts_with [] (q # qs) = False"
| "starts_with (c # cs) (q # qs) = (c = q \<and> starts_with cs qs)"

fun contains :: "string \<Rightarrow> string \<Rightarrow> bool" where
  "contains [] q = (q = [])"
| "contains (c # cs) q = (starts_with (c # cs) q \<or> contains cs q)"

definition contains_pattern :: "string \<Rightarrow> string option" where
  "contains_pattern pat =
     (if 4 \<le> length pat \<and> take 2 pat = ''.*'' \<and> drop (length pat - 2) pat = ''.*''
         \<and> list_all (\<lambda>c. word_char c \<or> c = CHR '' '') (take (length pat - 4) (drop 2 pat))
      then Some (take (length pat - 4) (drop 2 pat)) else None)"

definition regexp_match :: "string \<Rightarrow> string \<Rightarrow> bool" where
  "regexp_match pat text =
     (case contains_pattern pat of None \<Rightarrow> False | Some q \<Rightarrow> contains text q)"

fun field_texts :: "jsval \<Rightarrow> string list" where
  "field_texts (JStr s) = [s]"
| "field_texts (JArr xs) = concat (map (\<lambda>x. case x of JStr s \<Rightarrow> [s] | _ \<Rightarrow> []) xs)"
| "field_texts v = []"

fun field_of :: "jsval \<Rightarrow> string \<Rightarrow> jsval" where
  "field_of (JObj props) k = (case map_of props k of None \<Rightarrow> JUndefined | Some v \<Rightarrow> v)"
| "field_of v k = JUndefined"

fun satisfies :: "query \<Rightarrow> jsval \<Rightarrow> bool" where
  "satisfies (Match field q) src = list_ex (term_match q) (field_texts (field_of src field))"
| "satisfies (Regexp field pat) src = list_ex (regexp_match pat) (field_texts (field_of src field))"

text \<open>
  Modelled from the spec: the ordering of section 4.1, "ordered by the store's
  internal identifier ascending", which for documents inserted one after the other is
  the order of insertion. The store numbers the documents as they arrive and sorts by
  this number when \<^verbatim>\<open>_uid\<close> ascending is asked for; the id it hands out is the
  number in decimal digits. Without a sort the engine ranks the hits, which is not
  modelled: the store then answers with the documents as it holds them, the newest
  first, so that the order of insertion is obtained only by asking for it. A document
  is held under its index, its type and its id.
\<close>

fun holds :: "string \<Rightarrow> string \<Rightarrow> jsval \<Rightarrow> string \<times> string \<times> nat \<times> jsval \<Rightarrow> bool" where
  "holds index ty docid (ix, t, n, src) = (ix = index \<and> t = ty \<and> JStr (dec_nat n) = docid)"

fun in_collection :: "string \<Rightarrow> string \<Rightarrow> string \<times> string \<times> nat \<times> jsval \<Rightarrow> bool" where
  "in_collection index ty (ix, t, n, src) = (ix = index \<and> t = ty)"

fun hit :: "string \<times> string \<times> nat \<times> jsval \<Rightarrow> jsval" where
  "hit (ix, t, n, src) =
     JObj [(''_index'', JStr ix), (''_type'', JStr t), (''_id'', JStr (dec_nat n)), (''_source'', src)]"

fun set_field :: "string \<Rightarrow> jsval \<Rightarrow> (string \<times> jsval) list \<Rightarrow> (string \<times> jsval) list" where
  "set_field k v [] = [(k, v)]"
| "set_field k v ((k', v') # ps) = (if k = k' then (k, v) # ps else (k', v') # set_field k v ps)"

fun merge_doc :: "jsval \<Rightarrow> jsval \<Rightarrow> jsval" where
  "merge_doc (JObj old) (JObj new) = JObj (foldl (\<lambda>acc kv. set_field (fst kv) (snd kv) acc) old new)"
| "merge_doc old new = new"

fun merge_into :: "jsval \<Rightarrow> string \<times> string \<times> nat \<times> jsval \<Rightarrow> string \<times> string \<times> nat \<times> jsval" where
  "merge_into new (ix, t, n, src) = (ix, t, n, merge_doc src new)"

fun es_handle :: "request \<Rightarrow> es_world \<Rightarrow> (jsval + api_response) \<times> es_world" where
  "es_handle Info w = (Inr (response 200 (JObj [(''tagline'', JStr ''You Know, for Search'')])), w)"
| "es_handle (Index index ty doc rf) w =
     (Inr (response 201
        (JObj [(''_index'', JStr index), (''_type'', JStr ty),
               (''_id'', JStr (dec_nat (next_id w))), (''result'', JStr ''created'')])),
      w\<lparr>indices := List.insert index (indices w),
        docs := (index, ty, next_id w, doc)
                  # filter (\<lambda>d. \<not> holds index ty (JStr (dec_nat (next_id w))) d) (docs w),
        next_id := Suc (next_id w)\<rparr>)"
| "es_handle (Get index ty docid) w =
     (case find (holds index ty docid) (docs w) of
        Some d \<Rightarrow>
          (Inr (response 200
             (JObj [(''_index'', JStr index), (''_type'', JStr ty), (''_id'', docid),
                    (''found'', JBool True), (''_source'', snd (snd (snd d)))])), w)
      | None \<Rightarrow>
          (Inl (ResponseError 404
             (JObj [(''_index'', JStr index), (''_type'', JStr ty), (''_id'', docid),
                    (''found'', JBool False)])), w))"
| "es_handle (Update index ty docid rf doc) w =
     (if list_ex (holds index ty docid) (docs w)
      then (Inr (response 200 (JObj [(''_id'', docid), (''result'', JStr ''updated'')])),
            w\<lparr>docs := map (\<lambda>d. if holds index ty docid d then merge_into doc d else d) (docs w)\<rparr>)
      else (Inl (ResponseError 404
             (JObj [(''error'', JObj [(''type'', JStr ''document_missing_exception'')]),
                    (''status'', JNum 404)])), w))"
| "es_handle (Search index ty srt q) w =
     (if index \<notin> set (indices w) then (Inl (ResponseError 404 (index_not_found index)), w)
      else
        (let found = filter (\<lambda>d. in_collection index ty d \<and> satisfies q (snd (snd (snd d)))) (docs w);
             ordered = (if SortBy ''_uid'' ''asc'' \<in> set srt
                        then sort_key (\<lambda>d. fst (snd (snd d))) found else found)
         in (Inr (response 200
               (JObj [(''hits'', JObj [(''total'', JNum (int (length ordered))),
                                        (''hits'', JArr (map hit ordered))])])), w)))"
| "es_handle (Delete index ty docid rf) w =
     (if list_ex (holds index ty docid) (docs w)
      then (Inr (response 200
              (JObj [(''_id'', docid), (''found'', JBool True), (''result'', JStr ''deleted'')])),
            w\<lparr>docs := filter (\<lambda>d. \<not> holds index ty docid d) (docs w)\<rparr>)
      else (Inl (ResponseError 404
             (JObj [(''_id'', docid), (''found'', JBool False), (''result'', JStr ''not_found'')])), w))"
| "es_handle (IndicesDelete index ignore) w =
     (if index \<in> set (indices w)
      then (Inr (response 200 (JObj [(''acknowledged'', JBool True)])),
            w\<lparr>indices := removeAll index (indices w),
              docs := filter (\<lambda>d. fst d \<noteq> index) (docs w)\<rparr>)
      else if 404 \<in> set ignore then (Inr (response 404 (index_not_found index)), w)
      else (Inl (ResponseError 404 (index_not_found index)), w))"
| "es_handle (IndicesRefresh index) w =
     (if index \<in> set (indices w) then (Inr (response 200 (JObj [])), w)
      else (Inl (ResponseError 404 (index_not_found index)), w))"

text \<open>
  Constructing a client contacts nothing and its answer carries nothing; a call
  reaches the store when the store is reachable.
\<close>

fun es_lib :: "es_world library" where
  "es_lib (NewClient node) w = (Inr \<lparr>statusCode = JUndefined, body = JUndefined\<rparr>, w)"
| "es_lib (Call node req) w = (if reachable w then es_handle req w else (Inl ConnectionError, w))"

definition fresh :: "bool \<Rightarrow> es_world sys" where
  "fresh up = \<lparr>trace = [], world = \<lparr>reachable = up, indices = [], docs = [], next_id = 0\<rparr>\<rparr>"

section \<open>The scenario of the test "able to search"\<close>

text \<open>
  \<^verbatim>\<open>src/src/tests/index.test.ts\<close>, lines 53 to 61: the documents are created one
  after the other, then the field is searched.
\<close>

fun create_all ::
  "'w library \<Rightarrow> Elastic \<Rightarrow> string \<Rightarrow> string \<Rightarrow> jsval list \<Rightarrow> 'w sys \<Rightarrow> (jsval + unit) \<times> 'w sys" where
  "create_all lib this index ty [] s = (Inr (), s)"
| "create_all lib this index ty (d # ds) s =
     (case createDocument lib this index ty d s of
        (Inl e, s1) \<Rightarrow> (Inl e, s1)
      | (Inr i, s1) \<Rightarrow> create_all lib this index ty ds s1)"




section \<open>What the round trip asks of the store\<close>

text \<open>
  The adapter stores nothing itself. That a document can be read back is a property
  of the store, asked of it here in the store's own terms: when a request to index a
  valid body is answered by a created resource with status 201 and the following
  refresh of the index is answered too, then the answer names an id, and a request to
  get the document of this id in the same index and type is answered by a response
  whose \<^verbatim>\<open>_source\<close> is the body.
\<close>

definition store_roundtrip :: "'w library \<Rightarrow> bool" where
  "store_roundtrip lib =
     (\<forall>node index ty doc w r w1 r2 w2.
        valid_body doc
        \<and> lib (Call node (Index index ty doc ''true'')) w = (Inr r, w1)
        \<and> get_prop (body r) ''result'' = Inr (JStr ''created'')
        \<and> statusCode r = JNum 201
        \<and> lib (Call node (IndicesRefresh index)) w1 = (Inr r2, w2)
        \<longrightarrow> (\<exists>i resp w3.
               get_prop (body r) ''_id'' = Inr i
               \<and> lib (Call node (Get index ty i)) w2 = (Inr resp, w3)
               \<and> get_prop (body resp) ''_source'' = Inr doc))"

section \<open>What the option to ignore a status asks of the library\<close>

text \<open>
  \<^verbatim>\<open>deleteIndex\<close> passes \<^verbatim>\<open>ignore: [404]\<close>. The option is the library's: a
  reply whose status the call lists is not thrown. In the terms of the model, what the
  library throws on the deletion of a collection never has a status among those the
  call ignores.
\<close>

definition has_status :: "int \<Rightarrow> jsval \<Rightarrow> bool" where
  "has_status st e = (get_prop e ''statusCode'' = Inr (JNum st))"

definition honours_ignore :: "'w library \<Rightarrow> bool" where
  "honours_ignore lib =
     (\<forall>node index ignore w e w'.
        lib (Call node (IndicesDelete index ignore)) w = (Inl e, w')
        \<longrightarrow> list_all (\<lambda>st. \<not> has_status st e) ignore)"

section \<open>Properties of the reference store\<close>


lemma es_lib_store_roundtrip: "store_roundtrip es_lib"
  unfolding store_roundtrip_def
proof (intro allI impI, elim conjE)
  fix node index ty doc w r w1 r2 w2
  assume idx: "es_lib (Call node (Index index ty doc ''true'')) w = (Inr r, w1)"
    and rf: "es_lib (Call node (IndicesRefresh index)) w1 = (Inr r2, w2)"
  from idx have up: "reachable w"
    by (auto split: if_splits)
  from idx up have r: "r = response 201
        (JObj [(''_index'', JStr index), (''_type'', JStr ty),
               (''_id'', JStr (dec_nat (next_id w))), (''result'', JStr ''created'')])"
    and w1: "docs w1 = (index, ty, next_id w, doc)
                  # filter (\<lambda>d. \<not> holds index ty (JStr (dec_nat (next_id w))) d) (docs w)"
      "reachable w1"
    by auto
  from rf have w2: "w2 = w1"
    by (auto split: if_splits)
  have f: "find (holds index ty (JStr (dec_nat (next_id w)))) (docs w2)
             = Some (index, ty, next_id w, doc)"
    unfolding w2 w1 by simp
  have "get_prop (body r) ''_id'' = Inr (JStr (dec_nat (next_id w)))"
    by (simp add: r response_def)
  moreover have "\<exists>resp w3.
        es_lib (Call node (Get index ty (JStr (dec_nat (next_id w))))) w2 = (Inr resp, w3)
        \<and> get_prop (body resp) ''_source'' = Inr doc"
    using f w1(2) by (simp add: w2 response_def)
  ultimately show "\<exists>i resp w3.
               get_prop (body r) ''_id'' = Inr i
               \<and> es_lib (Call node (Get index ty i)) w2 = (Inr resp, w3)
               \<and> get_prop (body resp) ''_source'' = Inr doc"
    by blast
qed

lemma es_lib_honours_ignore: "honours_ignore es_lib"
  unfolding honours_ignore_def
proof (intro allI impI)
  fix node index ignore w e w'
  assume t: "es_lib (Call node (IndicesDelete index ignore)) w = (Inl e, w')"
  show "list_all (\<lambda>st. \<not> has_status st e) ignore"
  proof (cases "reachable w")
    case False
    with t have "e = ConnectionError" by simp
    then show ?thesis
      by (simp add: has_status_def ConnectionError_def connection_error_def list_all_iff)
  next
    case True
    with t have e: "e = ResponseError 404 (index_not_found index)" and n: "404 \<notin> set ignore"
      by (auto split: if_splits)
    show ?thesis
      unfolding list_all_iff
    proof
      fix st assume "st \<in> set ignore"
      with n have "st \<noteq> 404" by auto
      then show "\<not> has_status st e"
        by (simp add: e has_status_def ResponseError_def index_not_found_def)
    qed
  qed
qed

lemma dec_nat_0: "dec_nat 0 = ''0''"
  by code_simp

lemma deleteIndex_reference_store:
  "reachable w \<Longrightarrow> fst (deleteIndex es_lib this index \<lparr>trace = t, world = w\<rparr>) = Inr True"
  by (simp add: deleteIndex_def invoke_def)

section \<open>Properties of the adapter\<close>

text \<open>
  The pattern of \<^verbatim>\<open>validateIndex\<close> accepts the non-empty names made of lower-case
  letters, digits and hyphens.
\<close>

lemma matches_index_pattern_iff:
  "matches_index_pattern name \<longleftrightarrow> name \<noteq> [] \<and> (\<forall>c \<in> set name. index_char c)"
  by (simp add: matches_index_pattern_def list_all_iff)

text \<open>
  The three ways the handler of \<^verbatim>\<open>getById\<close> ends, by what the thrown value \<open>e\<close>
  carries: \<^verbatim>\<open>e.body.found === false\<close>; a body with another \<^verbatim>\<open>found\<close>; no body.
\<close>

lemma getById_not_found:
  assumes "lib (Call (client this) (Get index ty docid)) (world s) = (Inl e, w')"
    and "get_prop e ''body'' = Inr b"
    and "get_prop b ''found'' = Inr (JBool False)"
  shows "fst (getById lib this index ty docid s) = Inr JUndefined"
  using assms by (simp add: getById_def getById_handler_def invoke_def and_then_def)

lemma getById_rethrows:
  assumes "lib (Call (client this) (Get index ty docid)) (world s) = (Inl e, w')"
    and "get_prop e ''body'' = Inr b"
    and "get_prop b ''found'' = Inr f"
    and "f \<noteq> JBool False"
  shows "fst (getById lib this index ty docid s) = Inl e"
  using assms by (simp add: getById_def getById_handler_def invoke_def and_then_def)

lemma getById_bodyless:
  assumes "lib (Call (client this) (Get index ty docid)) (world s) = (Inl e, w')"
    and "get_prop e ''body'' = Inr JUndefined"
  shows "fst (getById lib this index ty docid s) = Inl (cannot_read ''undefined'' ''found'')"
  using assms by (simp add: getById_def getById_handler_def invoke_def and_then_def)

text \<open>
  What \<^verbatim>\<open>searchByField\<close> returns is read off the store's answer to one request: the
  \<^verbatim>\<open>match\<close> query on the field, sorted by \<^verbatim>\<open>_uid\<close> ascending.
\<close>

lemma searchByField_result:
  "lib (Call (client this) (Search index ty [SortBy ''_uid'' ''asc''] (Match field query))) (world s)
     = (Inr r, w') \<Longrightarrow>
   fst (searchByField lib this index ty field query s) = hits_sources (body r)"
  by (simp add: searchByField_def invoke_def)

section \<open>Where the second copy differs\<close>

text \<open>
  In the second copy \<^verbatim>\<open>searchByField\<close>, matching by containment, finds
  \<^verbatim>\<open>"aaa"\<close> for the query \<^verbatim>\<open>"aa"\<close>.
\<close>

lemma searchByField_v0_contains:
  "fst (searchByField_v0 es_lib \<lparr>client = ''http://localhost:9200''\<rparr>
          ''unit-test-elastic-index'' ''typeName'' ''keyName'' ''aa''
          \<lparr>trace = [],
           world = \<lparr>reachable = True, indices = [''unit-test-elastic-index''],
                    docs = [(''unit-test-elastic-index'', ''typeName'', 0,
                             JObj [(''keyName'', JStr ''aaa'')])],
                    next_id = 1\<rparr>\<rparr>)
     = Inr [JObj [(''keyName'', JStr ''aaa'')]]"
  by code_simp

section \<open>What the sort does on the reference store\<close>

text \<open>
  The same query on the same three documents, sent to the store without a sort: the
  two hits come newest first. The order of insertion in the result of
  \<^verbatim>\<open>searchByField\<close> is the work of the sort it asks for.
\<close>

lemma search_without_sort:
  "fst (es_lib (Call ''http://localhost:9200''
                  (Search ''unit-test-elastic-index'' ''typeName'' [] (Match ''keyName'' ''aa'')))
          (world (snd (create_all es_lib \<lparr>client = ''http://localhost:9200''\<rparr>
                         ''unit-test-elastic-index'' ''typeName''
                         [JObj [(''keyName'', JStr ''aa'')], JObj [(''keyName'', JStr ''aa bb'')],
                          JObj [(''keyName'', JStr ''cc'')]]
                         (fresh True)))))
     = Inr (response 200
              (JObj [(''hits'',
                      JObj [(''total'', JNum 2),
                            (''hits'',
                             JArr [hit (''unit-test-elastic-index'', ''typeName'', 1,
                                        JObj [(''keyName'', JStr ''aa bb'')]),
                                   hit (''unit-test-elastic-index'', ''typeName'', 0,
                                        JObj [(''keyName'', JStr ''aa'')])])])]))"
  by code_simp

section \<open>Properties stated by the specification\<close>

text \<open>
  C1. Round-trip law. For every library whose store reads back what it has indexed
  and refreshed, for every valid field mapping \<open>M\<close>: when \<^verbatim>\<open>createDocument\<close> has
  returned an id for \<open>M\<close> (it then has accepted the name of the collection, and the
  store has answered the write by a created resource), \<^verbatim>\<open>getById\<close> with this id, in
  the state \<^verbatim>\<open>createDocument\<close> has left, returns exactly \<open>M\<close>: the fields as they
  were submitted, the id not among them.
\<close>

theorem getById_createDocument_roundtrip:
  assumes law: "store_roundtrip lib"
    and valid: "valid_body M"
    and created: "createDocument lib this index ty M s = (Inr i, s')"
  shows "fst (getById lib this index ty i s') = Inr M"
proof -
  from created have v: "validateIndex index = Inr ()"
    by (auto simp: createDocument_def split: sum.splits)
  obtain r w1 where idx: "lib (Call (client this) (Index index ty M ''true'')) (world s) = (Inr r, w1)"
    using created v
    by (cases "lib (Call (client this) (Index index ty M ''true'')) (world s)")
       (auto simp: createDocument_def invoke_def split: sum.splits)
  obtain r2 w2 where rf: "lib (Call (client this) (IndicesRefresh index)) w1 = (Inr r2, w2)"
    using created v idx
    by (cases "lib (Call (client this) (IndicesRefresh index)) w1")
       (auto simp: createDocument_def refresh_def invoke_def split: sum.splits)
  from created v idx rf
  have res: "get_prop (body r) ''result'' = Inr (JStr ''created'')"
    and st: "statusCode r = JNum 201"
    and i: "get_prop (body r) ''_id'' = Inr i"
    and s': "world s' = w2"
    by (auto simp: createDocument_def refresh_def invoke_def split: sum.splits if_splits)
  from law valid idx res st rf
  obtain j resp w3 where j: "get_prop (body r) ''_id'' = Inr j"
    and g: "lib (Call (client this) (Get index ty j)) w2 = (Inr resp, w3)"
    and src: "get_prop (body resp) ''_source'' = Inr M"
    unfolding store_roundtrip_def by blast
  from i j have "j = i" by simp
  with g src s' show ?thesis
    by (simp add: getById_def invoke_def and_then_def)
qed

text \<open>
  The law at the document of the test "able to create, get, update and delete", on the
  reference store.
\<close>

theorem getById_createDocument_roundtrip_witness:
  "store_roundtrip es_lib
   \<and> valid_body (JObj [(''keyName'', JStr ''value'')])
   \<and> fst (createDocument es_lib \<lparr>client = ''http://localhost:9200''\<rparr>
            ''unit-test-elastic-index'' ''typeName''
            (JObj [(''keyName'', JStr ''value'')]) (fresh True)) = Inr (JStr ''0'')
   \<and> fst (getById es_lib \<lparr>client = ''http://localhost:9200''\<rparr>
            ''unit-test-elastic-index'' ''typeName'' (JStr ''0'')
            (snd (createDocument es_lib \<lparr>client = ''http://localhost:9200''\<rparr>
                    ''unit-test-elastic-index'' ''typeName''
                    (JObj [(''keyName'', JStr ''value'')]) (fresh True))))
       = Inr (JObj [(''keyName'', JStr ''value'')])"
proof -
  have v: "valid_body (JObj [(''keyName'', JStr ''value'')])"
    by simp
  have c: "fst (createDocument es_lib \<lparr>client = ''http://localhost:9200''\<rparr>
                  ''unit-test-elastic-index'' ''typeName''
                  (JObj [(''keyName'', JStr ''value'')]) (fresh True)) = Inr (JStr ''0'')"
    by code_simp
  then have c': "createDocument es_lib \<lparr>client = ''http://localhost:9200''\<rparr>
                   ''unit-test-elastic-index'' ''typeName''
                   (JObj [(''keyName'', JStr ''value'')]) (fresh True)
        = (Inr (JStr ''0''),
           snd (createDocument es_lib \<lparr>client = ''http://localhost:9200''\<rparr>
                  ''unit-test-elastic-index'' ''typeName''
                  (JObj [(''keyName'', JStr ''value'')]) (fresh True)))"
    by (metis prod.collapse)
  from getById_createDocument_roundtrip [OF es_lib_store_roundtrip v c']
    es_lib_store_roundtrip v c
  show ?thesis by blast
qed

text \<open>
  The second copy of \<^verbatim>\<open>createDocument\<close> with a name that the pattern rejects:
  the document is indexed and the index refreshed, and the id of the store returned.
\<close>

theorem createDocument_v0_counterexample:
  "matches_index_pattern ''unitTest_index'' = False
   \<and> fst (createDocument_v0 es_lib \<lparr>client = ''http://localhost:9200''\<rparr>
          ''unitTest_index'' ''typeName'' (JObj [(''keyName'', JStr ''value'')]) (fresh True))
     = Inr (JStr ''0'')
   \<and> trace (snd (createDocument_v0 es_lib \<lparr>client = ''http://localhost:9200''\<rparr>
          ''unitTest_index'' ''typeName'' (JObj [(''keyName'', JStr ''value'')]) (fresh True)))
     = [Call ''http://localhost:9200''
          (Index ''unitTest_index'' ''typeName'' (JObj [(''keyName'', JStr ''value'')]) ''true''),
        Call ''http://localhost:9200'' (IndicesRefresh ''unitTest_index'')]"
  by code_simp

text \<open>
  C2, as amended. In \<^verbatim>\<open>src/src/Elastic.ts\<close>, for every collection name that the
  pattern \<^verbatim>\<open>^[a-z0-9-]+$\<close> does not match, for every type, every body and every
  library, \<^verbatim>\<open>createDocument\<close> throws the error of \<^verbatim>\<open>validateIndex\<close> and leaves
  the state as it was: no action has been performed on the library, so no request has
  been sent and the store is unchanged. In the second copy \<^verbatim>\<open>createDocument\<close>
  validates nothing: for every name its first action is the request to index the body
  in the collection of this name.
\<close>

theorem createDocument_validation:
  "(\<not> matches_index_pattern index \<longrightarrow>
      createDocument lib this index ty doc_body s = (Inl (Error ''Only snake-case allowed''), s))
   \<and> take (Suc (length (trace s))) (trace (snd (createDocument_v0 lib this index ty doc_body s)))
       = trace s @ [Call (client this) (Index index ty doc_body ''true'')]"
proof (intro conjI impI)
  assume "\<not> matches_index_pattern index"
  then show "createDocument lib this index ty doc_body s
               = (Inl (Error ''Only snake-case allowed''), s)"
    by (simp add: createDocument_def validateIndex_def)
next
  obtain r w1 where i: "lib (Call (client this) (Index index ty doc_body ''true'')) (world s) = (r, w1)"
    by (cases "lib (Call (client this) (Index index ty doc_body ''true'')) (world s)")
  obtain r2 w2 where f: "lib (Call (client this) (IndicesRefresh index)) w1 = (r2, w2)"
    by (cases "lib (Call (client this) (IndicesRefresh index)) w1")
  show "take (Suc (length (trace s))) (trace (snd (createDocument_v0 lib this index ty doc_body s)))
          = trace s @ [Call (client this) (Index index ty doc_body ''true'')]"
    using i f
    by (cases r; cases r2)
       (simp_all add: createDocument_v0_def refresh_def invoke_def split: sum.splits)
qed

theorem createDocument_validation_witness:
  "matches_index_pattern ''unitTest_index'' = False
   \<and> createDocument es_lib \<lparr>client = ''http://localhost:9200''\<rparr> ''unitTest_index'' ''typeName''
       (JObj [(''keyName'', JStr ''value'')]) (fresh True)
     = (Inl (Error ''Only snake-case allowed''), fresh True)
   \<and> take (Suc 0) (trace (snd (createDocument_v0 es_lib \<lparr>client = ''http://localhost:9200''\<rparr>
          ''unitTest_index'' ''typeName'' (JObj [(''keyName'', JStr ''value'')]) (fresh True))))
     = [Call ''http://localhost:9200''
          (Index ''unitTest_index'' ''typeName'' (JObj [(''keyName'', JStr ''value'')]) ''true'')]"
proof -
  have n: "matches_index_pattern ''unitTest_index'' = False"
    by (simp add: matches_index_pattern_def index_char_def)
  from createDocument_validation
         [where lib = es_lib and this = "\<lparr>client = ''http://localhost:9200''\<rparr>"
            and index = "''unitTest_index''" and ty = "''typeName''"
            and doc_body = "JObj [(''keyName'', JStr ''value'')]" and s = "fresh True"]
       n
  show ?thesis
    by (simp add: fresh_def)
qed

text \<open>
  C3. \<^verbatim>\<open>getById\<close> on a store that cannot be reached. The client throws a
  \<^verbatim>\<open>ConnectionError\<close>, which has no \<^verbatim>\<open>body\<close>; the handler reads
  \<^verbatim>\<open>e.body.found\<close> and throws a \<^verbatim>\<open>TypeError\<close> of its own, so the caller does
  not receive the error of the store.
\<close>

theorem getById_loses_bodyless_error:
  "fst (es_lib (Call ''http://localhost:9200''
                  (Get ''unit-test-elastic-index'' ''typeName'' (JStr ''0'')))
          (world (fresh False))) = Inl ConnectionError
   \<and> get_prop ConnectionError ''body'' = Inr JUndefined
   \<and> fst (getById es_lib \<lparr>client = ''http://localhost:9200''\<rparr>
            ''unit-test-elastic-index'' ''typeName'' (JStr ''0'') (fresh False))
       = Inl (TypeError (''Cannot read properties of undefined (reading ''
                          @ [CHR 0x27] @ ''found'' @ [CHR 0x27] @ '')''))"
  by (simp add: getById_def getById_handler_def invoke_def and_then_def fresh_def
        ConnectionError_def connection_error_def cannot_read_def)


text \<open>
  C5. \<^verbatim>\<open>updateDocument\<close> never throws: for every library and every input its
  result is a boolean, \<^verbatim>\<open>true\<close> when the library answers the update call and
  \<^verbatim>\<open>false\<close> when the library throws, whatever it throws.
\<close>

theorem updateDocument_never_throws:
  "fst (updateDocument lib this index ty docid doc_body s)
     = Inr (case fst (lib (Call (client this) (Update index ty docid ''true'' doc_body)) (world s)) of
              Inl e \<Rightarrow> False
            | Inr r \<Rightarrow> True)"
  by (cases "lib (Call (client this) (Update index ty docid ''true'' doc_body)) (world s)")
     (auto simp: updateDocument_def invoke_def split: sum.splits)

text \<open>
  Deleting the same document twice. The first deletion is answered and completes. For
  the second the store no longer holds the id and answers 404; the call lists no
  status to ignore, the client throws, and \<^verbatim>\<open>deleteDocument\<close> lets the error
  through.
\<close>

theorem deleteDocument_absent_counterexample:
  "fst (deleteDocument es_lib \<lparr>client = ''http://localhost:9200''\<rparr>
          ''unit-test-elastic-index'' ''typeName'' (JStr ''0'')
          \<lparr>trace = [],
           world = \<lparr>reachable = True, indices = [''unit-test-elastic-index''],
                    docs = [(''unit-test-elastic-index'', ''typeName'', 0,
                             JObj [(''keyName'', JStr ''value'')])],
                    next_id = 1\<rparr>\<rparr>)
     = Inr ()
   \<and> fst (deleteDocument es_lib \<lparr>client = ''http://localhost:9200''\<rparr>
          ''unit-test-elastic-index'' ''typeName'' (JStr ''0'')
          (snd (deleteDocument es_lib \<lparr>client = ''http://localhost:9200''\<rparr>
                  ''unit-test-elastic-index'' ''typeName'' (JStr ''0'')
                  \<lparr>trace = [],
                   world = \<lparr>reachable = True, indices = [''unit-test-elastic-index''],
                            docs = [(''unit-test-elastic-index'', ''typeName'', 0,
                                     JObj [(''keyName'', JStr ''value'')])],
                            next_id = 1\<rparr>\<rparr>)))
     = Inl (ResponseError 404
              (JObj [(''_id'', JStr ''0''), (''found'', JBool False),
                     (''result'', JStr ''not_found'')]))"
  by (simp add: deleteDocument_def invoke_def dec_nat_0)

text \<open>
  C6, as amended. \<^verbatim>\<open>deleteDocument\<close> sends one request, the deletion of the id: in
  \<^verbatim>\<open>src/src/Elastic.ts\<close> with \<^verbatim>\<open>refresh: "true"\<close>, in the second copy without
  \<^verbatim>\<open>refresh\<close>. In both copies, when the library answers, it completes and returns
  nothing; when the library throws, the caller receives what was thrown, unchanged.
\<close>

theorem deleteDocument_outcome:
  "(lib (Call (client this) (Delete index ty docid (Some ''true''))) (world s) = (Inr r, w') \<longrightarrow>
      deleteDocument lib this index ty docid s
        = (Inr (), \<lparr>trace = trace s @ [Call (client this) (Delete index ty docid (Some ''true''))],
                    world = w'\<rparr>))
   \<and> (lib (Call (client this) (Delete index ty docid (Some ''true''))) (world s) = (Inl e, w') \<longrightarrow>
      deleteDocument lib this index ty docid s
        = (Inl e, \<lparr>trace = trace s @ [Call (client this) (Delete index ty docid (Some ''true''))],
                   world = w'\<rparr>))
   \<and> (lib (Call (client this) (Delete index ty docid None)) (world s) = (Inr r, w') \<longrightarrow>
      deleteDocument_v0 lib this index ty docid s
        = (Inr (), \<lparr>trace = trace s @ [Call (client this) (Delete index ty docid None)],
                    world = w'\<rparr>))
   \<and> (lib (Call (client this) (Delete index ty docid None)) (world s) = (Inl e, w') \<longrightarrow>
      deleteDocument_v0 lib this index ty docid s
        = (Inl e, \<lparr>trace = trace s @ [Call (client this) (Delete index ty docid None)],
                   world = w'\<rparr>))"
  by (simp add: deleteDocument_def deleteDocument_v0_def invoke_def)

theorem deleteDocument_outcome_witness:
  "deleteDocument es_lib \<lparr>client = ''http://localhost:9200''\<rparr>
      ''unit-test-elastic-index'' ''typeName'' (JStr ''0'')
      \<lparr>trace = [],
       world = \<lparr>reachable = True, indices = [''unit-test-elastic-index''],
                docs = [(''unit-test-elastic-index'', ''typeName'', 0,
                         JObj [(''keyName'', JStr ''value'')])],
                next_id = 1\<rparr>\<rparr>
     = (Inr (),
        \<lparr>trace = [Call ''http://localhost:9200''
                    (Delete ''unit-test-elastic-index'' ''typeName'' (JStr ''0'') (Some ''true''))],
         world = \<lparr>reachable = True, indices = [''unit-test-elastic-index''], docs = [],
                  next_id = 1\<rparr>\<rparr>)
   \<and> deleteDocument es_lib \<lparr>client = ''http://localhost:9200''\<rparr>
      ''unit-test-elastic-index'' ''typeName'' (JStr ''0'')
      \<lparr>trace = [],
       world = \<lparr>reachable = True, indices = [''unit-test-elastic-index''], docs = [],
                next_id = 1\<rparr>\<rparr>
     = (Inl (ResponseError 404
               (JObj [(''_id'', JStr ''0''), (''found'', JBool False),
                      (''result'', JStr ''not_found'')])),
        \<lparr>trace = [Call ''http://localhost:9200''
                    (Delete ''unit-test-elastic-index'' ''typeName'' (JStr ''0'') (Some ''true''))],
         world = \<lparr>reachable = True, indices = [''unit-test-elastic-index''], docs = [],
                  next_id = 1\<rparr>\<rparr>)
   \<and> deleteDocument_v0 es_lib \<lparr>client = ''http://localhost:9200''\<rparr>
      ''unit-test-elastic-index'' ''typeName'' (JStr ''0'')
      \<lparr>trace = [],
       world = \<lparr>reachable = True, indices = [''unit-test-elastic-index''],
                docs = [(''unit-test-elastic-index'', ''typeName'', 0,
                         JObj [(''keyName'', JStr ''value'')])],
                next_id = 1\<rparr>\<rparr>
     = (Inr (),
        \<lparr>trace = [Call ''http://localhost:9200''
                    (Delete ''unit-test-elastic-index'' ''typeName'' (JStr ''0'') None)],
         world = \<lparr>reachable = True, indices = [''unit-test-elastic-index''], docs = [],
                  next_id = 1\<rparr>\<rparr>)
   \<and> deleteDocument_v0 es_lib \<lparr>client = ''http://localhost:9200''\<rparr>
      ''unit-test-elastic-index'' ''typeName'' (JStr ''0'')
      \<lparr>trace = [],
       world = \<lparr>reachable = True, indices = [''unit-test-elastic-index''], docs = [],
                next_id = 1\<rparr>\<rparr>
     = (Inl (ResponseError 404
               (JObj [(''_id'', JStr ''0''), (''found'', JBool False),
                      (''result'', JStr ''not_found'')])),
        \<lparr>trace = [Call ''http://localhost:9200''
                    (Delete ''unit-test-elastic-index'' ''typeName'' (JStr ''0'') None)],
         world = \<lparr>reachable = True, indices = [''unit-test-elastic-index''], docs = [],
                  next_id = 1\<rparr>\<rparr>)"
proof -
  have present:
    "es_lib (Call ''http://localhost:9200''
               (Delete ''unit-test-elastic-index'' ''typeName'' (JStr ''0'') rf))
        \<lparr>reachable = True, indices = [''unit-test-elastic-index''],
          docs = [(''unit-test-elastic-index'', ''typeName'', 0,
                   JObj [(''keyName'', JStr ''value'')])],
          next_id = 1\<rparr>
     = (Inr (response 200
               (JObj [(''_id'', JStr ''0''), (''found'', JBool True),
                      (''result'', JStr ''deleted'')])),
        \<lparr>reachable = True, indices = [''unit-test-elastic-index''], docs = [], next_id = 1\<rparr>)"
    for rf
    by (simp add: dec_nat_0)
  have absent:
    "es_lib (Call ''http://localhost:9200''
               (Delete ''unit-test-elastic-index'' ''typeName'' (JStr ''0'') rf))
        \<lparr>reachable = True, indices = [''unit-test-elastic-index''], docs = [], next_id = 1\<rparr>
     = (Inl (ResponseError 404
               (JObj [(''_id'', JStr ''0''), (''found'', JBool False),
                      (''result'', JStr ''not_found'')])),
        \<lparr>reachable = True, indices = [''unit-test-elastic-index''], docs = [], next_id = 1\<rparr>)"
    for rf
    by simp
  from deleteDocument_outcome
         [where lib = es_lib and this = "\<lparr>client = ''http://localhost:9200''\<rparr>"
            and s = "\<lparr>trace = [],
                      world = \<lparr>reachable = True, indices = [''unit-test-elastic-index''],
                               docs = [(''unit-test-elastic-index'', ''typeName'', 0,
                                        JObj [(''keyName'', JStr ''value'')])],
                               next_id = 1\<rparr>\<rparr>"]
       deleteDocument_outcome
         [where lib = es_lib and this = "\<lparr>client = ''http://localhost:9200''\<rparr>"
            and s = "\<lparr>trace = [],
                      world = \<lparr>reachable = True, indices = [''unit-test-elastic-index''],
                               docs = [], next_id = 1\<rparr>\<rparr>"]
       present absent
  show ?thesis by simp
qed

text \<open>
  An empty port is a string: \<^verbatim>\<open>establish("http://localhost", "")\<close> is not rejected.
  It constructs the client for \<^verbatim>\<open>http://localhost:\<close> and sends the probe.
\<close>

theorem establish_empty_port_counterexample:
  "establish es_lib (JStr ''http://localhost'') (JStr []) (fresh True)
     = (Inr \<lparr>client = ''http://localhost:''\<rparr>,
        \<lparr>trace = [NewClient ''http://localhost:'', Call ''http://localhost:'' Info],
         world = world (fresh True)\<rparr>)
   \<and> establish es_lib (JStr ''http://localhost'') (JStr []) (fresh True)
       \<noteq> (Inl (Error ''Host invalid''), fresh True)"
  by (simp add: establish_def invoke_def fresh_def)

text \<open>
  C7, as amended. Whenever the host or the port is not a string (a missing argument is
  \<^verbatim>\<open>undefined\<close>), \<^verbatim>\<open>establish\<close> throws the error "Host invalid" and leaves the
  state as it was: no client has been constructed and no call made. Whenever both are
  strings, empty or not, it constructs the client for \<^verbatim>\<open>host:port\<close> and, when the
  construction has not thrown, sends the liveness probe; it performs no other action.
\<close>

theorem establish_checks_types:
  "(\<not> is_string host \<or> \<not> is_string port \<longrightarrow>
      establish lib host port s = (Inl (Error ''Host invalid''), s))
   \<and> (host = JStr h \<and> port = JStr p \<longrightarrow>
      trace (snd (establish lib host port s))
        = trace s @ (case fst (lib (NewClient (h @ '':'' @ p)) (world s)) of
                       Inl e \<Rightarrow> [NewClient (h @ '':'' @ p)]
                     | Inr c \<Rightarrow> [NewClient (h @ '':'' @ p), Call (h @ '':'' @ p) Info]))"
proof (intro conjI impI)
  assume "\<not> is_string host \<or> \<not> is_string port"
  then show "establish lib host port s = (Inl (Error ''Host invalid''), s)"
    by (cases host; cases port) (simp_all add: establish_def)
next
  assume hp: "host = JStr h \<and> port = JStr p"
  obtain r w1 where n: "lib (NewClient (h @ '':'' @ p)) (world s) = (r, w1)"
    by (cases "lib (NewClient (h @ '':'' @ p)) (world s)")
  obtain r' w2 where i: "lib (Call (h @ '':'' @ p) Info) w1 = (r', w2)"
    by (cases "lib (Call (h @ '':'' @ p) Info) w1")
  show "trace (snd (establish lib host port s))
        = trace s @ (case fst (lib (NewClient (h @ '':'' @ p)) (world s)) of
                       Inl e \<Rightarrow> [NewClient (h @ '':'' @ p)]
                     | Inr c \<Rightarrow> [NewClient (h @ '':'' @ p), Call (h @ '':'' @ p) Info])"
    using hp n i by (cases r; cases r') (simp_all add: establish_def invoke_def)
qed

theorem establish_checks_types_witness:
  "is_string JUndefined = False
   \<and> establish es_lib JUndefined (JStr ''9200'') (fresh True)
       = (Inl (Error ''Host invalid''), fresh True)
   \<and> trace (snd (establish es_lib (JStr ''http://localhost'') (JStr ''9200'') (fresh True)))
       = [NewClient ''http://localhost:9200'', Call ''http://localhost:9200'' Info]"
  using establish_checks_types
          [where host = JUndefined and port = "JStr ''9200''" and lib = es_lib and s = "fresh True"]
        establish_checks_types
          [where host = "JStr ''http://localhost''" and port = "JStr ''9200''"
             and h = "''http://localhost''" and p = "''9200''" and lib = es_lib and s = "fresh True"]
  by (simp add: fresh_def)

text \<open>
  C8. Whenever the host and the port are strings, the client has been constructed and
  the liveness probe throws a value \<open>e\<close>, \<^verbatim>\<open>establish\<close> throws an \<^verbatim>\<open>Error\<close> whose
  message is the literal \<^verbatim>\<open>"Cannot establish elasticsearch connection: "\<close> followed by
  the text of \<open>e\<close>, that is by \<open>e\<close> converted to a string: for an instance of
  \<^verbatim>\<open>Error\<close> such as the \<^verbatim>\<open>ConnectionError\<close> of the transport its name, a colon
  and its message (or only one of the two when the other is empty), for a
  \<^verbatim>\<open>ResponseError\<close> the JSON text of the body of the reply, for a string the
  string.
\<close>

theorem establish_probe_failure:
  assumes new: "lib (NewClient (h @ '':'' @ p)) (world s) = (Inr c, w1)"
    and probe: "lib (Call (h @ '':'' @ p) Info) w1 = (Inl e, w2)"
  shows "fst (establish lib (JStr h) (JStr p) s)
           = Inl (Error (''Cannot establish elasticsearch connection: '' @ js_to_string e))
         \<and> (e = JError name message props \<longrightarrow>
              fst (establish lib (JStr h) (JStr p) s)
                = Inl (Error (''Cannot establish elasticsearch connection: ''
                        @ (if name = [] then message
                           else if message = [] then name
                           else name @ '': '' @ message))))
         \<and> (e = JResponseError message st b \<and> json_stringify b = Some t \<longrightarrow>
              fst (establish lib (JStr h) (JStr p) s)
                = Inl (Error (''Cannot establish elasticsearch connection: '' @ t)))
         \<and> (e = JStr t \<longrightarrow>
              fst (establish lib (JStr h) (JStr p) s)
                = Inl (Error (''Cannot establish elasticsearch connection: '' @ t)))"
proof -
  have m: "fst (establish lib (JStr h) (JStr p) s)
           = Inl (Error (''Cannot establish elasticsearch connection: '' @ js_to_string e))"
    using new probe by (simp add: establish_def invoke_def)
  show ?thesis
    unfolding m by simp
qed

text \<open>
  The probe refused by the transport, and the probe answered by the status 401: the
  messages the caller receives.
\<close>

theorem establish_probe_failure_witness:
  "fst (establish (failing_lib (connection_error ''connect ECONNREFUSED 127.0.0.1:9999''))
          (JStr ''http://localhost'') (JStr ''9999'') \<lparr>trace = [], world = ()\<rparr>)
     = Inl (Error ''Cannot establish elasticsearch connection: ConnectionError: connect ECONNREFUSED 127.0.0.1:9999'')
   \<and> fst (establish (failing_lib (JResponseError ''Response Error'' 401 (JObj [(''status'', JNum 401)])))
          (JStr ''http://localhost'') (JStr ''9200'') \<lparr>trace = [], world = ()\<rparr>)
     = Inl (Error (''Cannot establish elasticsearch connection: ''
                    @ ''{'' @ [CHR 0x22] @ ''status'' @ [CHR 0x22] @ '':401}''))"
proof -
  have n: "failing_lib e (NewClient (h @ '':'' @ p)) (world \<lparr>trace = [], world = ()\<rparr>)
             = (Inr \<lparr>statusCode = JUndefined, body = JUndefined\<rparr>, ())" for e h p
    by simp
  have i: "failing_lib e (Call (h @ '':'' @ p) Info) () = (Inl e, ())" for e h p
    by simp
  have j: "json_stringify (JObj [(''status'', JNum 401)])
             = Some (''{'' @ [CHR 0x22] @ ''status'' @ [CHR 0x22] @ '':401}'')"
    by code_simp
  note refused = establish_probe_failure
         [where lib = "failing_lib (JError ''ConnectionError'' ''connect ECONNREFUSED 127.0.0.1:9999''
                                      [(''meta'', JObj [(''body'', JNull)])])"
            and h = "''http://localhost''" and p = "''9999''"
            and s = "\<lparr>trace = [], world = ()\<rparr>"
            and name = "''ConnectionError''" and message = "''connect ECONNREFUSED 127.0.0.1:9999''"
            and props = "[(''meta'', JObj [(''body'', JNull)])]", OF n i]
  note answered = establish_probe_failure
         [where lib = "failing_lib (JResponseError ''Response Error'' 401 (JObj [(''status'', JNum 401)]))"
            and h = "''http://localhost''" and p = "''9200''"
            and s = "\<lparr>trace = [], world = ()\<rparr>"
            and message = "''Response Error''" and st = 401
            and b = "JObj [(''status'', JNum 401)]"
            and t = "''{'' @ [CHR 0x22] @ ''status'' @ [CHR 0x22] @ '':401}''", OF n i]
  from refused
  have "fst (establish (failing_lib (JError ''ConnectionError'' ''connect ECONNREFUSED 127.0.0.1:9999''
                                       [(''meta'', JObj [(''body'', JNull)])]))
               (JStr ''http://localhost'') (JStr ''9999'') \<lparr>trace = [], world = ()\<rparr>)
          = Inl (Error (''Cannot establish elasticsearch connection: ''
                  @ (if ''ConnectionError'' = [] then ''connect ECONNREFUSED 127.0.0.1:9999''
                     else if ''connect ECONNREFUSED 127.0.0.1:9999'' = [] then ''ConnectionError''
                     else ''ConnectionError'' @ '': '' @ ''connect ECONNREFUSED 127.0.0.1:9999'')))"
    by blast
  then have r: "fst (establish (failing_lib (connection_error ''connect ECONNREFUSED 127.0.0.1:9999''))
               (JStr ''http://localhost'') (JStr ''9999'') \<lparr>trace = [], world = ()\<rparr>)
          = Inl (Error ''Cannot establish elasticsearch connection: ConnectionError: connect ECONNREFUSED 127.0.0.1:9999'')"
    by (simp add: connection_error_def)
  from answered j
  have a: "fst (establish (failing_lib (JResponseError ''Response Error'' 401 (JObj [(''status'', JNum 401)])))
               (JStr ''http://localhost'') (JStr ''9200'') \<lparr>trace = [], world = ()\<rparr>)
          = Inl (Error (''Cannot establish elasticsearch connection: ''
                    @ ''{'' @ [CHR 0x22] @ ''status'' @ [CHR 0x22] @ '':401}''))"
    by blast
  from r a show ?thesis
    by (intro conjI)
qed

text \<open>
  C9. \<^verbatim>\<open>deleteIndex\<close> sends the deletion of the collection with the option
  \<^verbatim>\<open>ignore: [404]\<close>. Whenever the library answers the call, with whatever status,
  it returns \<^verbatim>\<open>true\<close>; the answer to the deletion of a collection that does not
  exist is the status 404 that the option lists, so this case returns \<^verbatim>\<open>true\<close> as
  well, each time it is repeated. And with a library that does not throw the statuses a
  call ignores, nothing that \<^verbatim>\<open>deleteIndex\<close> throws is the not-found condition.
\<close>

theorem deleteIndex_idempotent:
  "(lib (Call (client this) (IndicesDelete index [404])) (world s) = (Inr r, w') \<longrightarrow>
      deleteIndex lib this index s
        = (Inr True,
           \<lparr>trace = trace s @ [Call (client this) (IndicesDelete index [404])], world = w'\<rparr>))
   \<and> (honours_ignore lib \<and> fst (deleteIndex lib this index s) = Inl e \<longrightarrow> \<not> has_status 404 e)"
proof (intro conjI impI)
  assume "lib (Call (client this) (IndicesDelete index [404])) (world s) = (Inr r, w')"
  then show "deleteIndex lib this index s
        = (Inr True,
           \<lparr>trace = trace s @ [Call (client this) (IndicesDelete index [404])], world = w'\<rparr>)"
    by (simp add: deleteIndex_def invoke_def)
next
  assume a: "honours_ignore lib \<and> fst (deleteIndex lib this index s) = Inl e"
  obtain x w1 where c: "lib (Call (client this) (IndicesDelete index [404])) (world s) = (x, w1)"
    by (cases "lib (Call (client this) (IndicesDelete index [404])) (world s)")
  with a have "x = Inl e"
    by (cases x) (simp_all add: deleteIndex_def invoke_def)
  with a c have "list_all (\<lambda>st. \<not> has_status st e) [404]"
    unfolding honours_ignore_def by blast
  then show "\<not> has_status 404 e" by simp
qed

text \<open>
  On the reference store: the collection does not exist and the result is
  \<^verbatim>\<open>true\<close>; the store cannot be reached and the error is the transport's.
\<close>

theorem deleteIndex_idempotent_witness:
  "honours_ignore es_lib
   \<and> es_lib (Call ''http://localhost:9200'' (IndicesDelete ''unit-test-elastic-index'' [404]))
       (world (fresh True))
     = (Inr (response 404 (index_not_found ''unit-test-elastic-index'')), world (fresh True))
   \<and> deleteIndex es_lib \<lparr>client = ''http://localhost:9200''\<rparr> ''unit-test-elastic-index'' (fresh True)
     = (Inr True,
        \<lparr>trace = [Call ''http://localhost:9200'' (IndicesDelete ''unit-test-elastic-index'' [404])],
         world = world (fresh True)\<rparr>)
   \<and> fst (deleteIndex es_lib \<lparr>client = ''http://localhost:9200''\<rparr> ''unit-test-elastic-index''
            (fresh False)) = Inl ConnectionError
   \<and> has_status 404 ConnectionError = False"
proof -
  have d: "es_lib (Call (client \<lparr>client = ''http://localhost:9200''\<rparr>)
                     (IndicesDelete ''unit-test-elastic-index'' [404])) (world (fresh True))
     = (Inr (response 404 (index_not_found ''unit-test-elastic-index'')), world (fresh True))"
    by (simp add: fresh_def)
  have u: "fst (deleteIndex es_lib \<lparr>client = ''http://localhost:9200''\<rparr> ''unit-test-elastic-index''
            (fresh False)) = Inl ConnectionError"
    by (simp add: deleteIndex_def invoke_def fresh_def)
  from deleteIndex_idempotent
         [where lib = es_lib and this = "\<lparr>client = ''http://localhost:9200''\<rparr>"
            and s = "fresh True" and index = "''unit-test-elastic-index''"
            and r = "response 404 (index_not_found ''unit-test-elastic-index'')"
            and w' = "world (fresh True)"]
       deleteIndex_idempotent
         [where lib = es_lib and this = "\<lparr>client = ''http://localhost:9200''\<rparr>"
            and s = "fresh False" and index = "''unit-test-elastic-index''"
            and e = ConnectionError]
       d u es_lib_honours_ignore
  show ?thesis
    by (simp add: fresh_def)
qed

text \<open>
  C10. The two checks of \<^verbatim>\<open>establish\<close> throw the same error: a host that is not a
  string, and a port that is not a string after a host that is one, both give an
  \<^verbatim>\<open>Error\<close> with the message "Host invalid", and both leave the state as it was,
  no client having been constructed.
\<close>

theorem establish_same_message:
  "\<not> is_string host \<Longrightarrow> is_string host' \<Longrightarrow> \<not> is_string port' \<Longrightarrow>
     establish lib host port s = (Inl (Error ''Host invalid''), s)
     \<and> establish lib host' port' s = (Inl (Error ''Host invalid''), s)"
  by (cases host; cases host'; cases port') (simp_all add: establish_def)

theorem establish_same_message_witness:
  "\<not> is_string JUndefined \<and> is_string (JStr ''http://localhost'') \<and> \<not> is_string (JNum 9200)
   \<and> establish es_lib JUndefined (JStr ''9200'') (fresh True)
       = (Inl (Error ''Host invalid''), fresh True)
   \<and> establish es_lib (JStr ''http://localhost'') (JNum 9200) (fresh True)
       = (Inl (Error ''Host invalid''), fresh True)"
proof -
  have a: "\<not> is_string JUndefined"
    and b: "is_string (JStr ''http://localhost'')"
    and c: "\<not> is_string (JNum 9200)"
    by simp_all
  from establish_same_message [OF a b c] a b c show ?thesis by blast
qed

end
